theory Spec2Isabelle
  imports Main
begin

section \<open>The record store\<close>

text \<open>
  Both scripts declare the same two tables. A row of \<open>users\<close> has the columns
  \<open>id\<close>, \<open>username\<close> and \<open>role\<close>; a row of \<open>patients\<close> has the columns \<open>id\<close>,
  \<open>name\<close>, \<open>provider_name\<close> and \<open>condition\<close>. The two \<open>id\<close> columns are written
  \<open>uid\<close> and \<open>pid\<close> here, since \<open>id\<close> is the identity function of HOL. Every text
  column is declared \<open>nullable=False\<close>, so a role is a string and never Python's
  \<open>None\<close>. A table is the list of its rows in insertion order, and the database is
  the pair of the two tables.
\<close>

record user_row =
  uid :: int
  username :: string
  role :: string

record patient_row =
  pid :: int
  name :: string
  provider_name :: string
  condition :: string

record store =
  users :: "user_row list"
  patients :: "patient_row list"

text \<open>
  An \<open>Integer\<close> column of the SQLite file holds a signed 64-bit value, and the
  driver accepts a Python integer as a statement parameter only in that range.
\<close>

definition in_int64 :: "int \<Rightarrow> bool" where
  "in_int64 i = (- 9223372036854775808 \<le> i \<and> i \<le> 9223372036854775807)"

text \<open>
  The stores the database can hold: \<open>primary_key=True\<close> on both \<open>id\<close> columns,
  \<open>unique=True\<close> on \<open>username\<close>, and every stored id a signed 64-bit value.
\<close>

definition wf_store :: "store \<Rightarrow> bool" where
  "wf_store s =
     (distinct (map uid (users s)) \<and> distinct (map username (users s)) \<and>
      distinct (map pid (patients s)) \<and>
      list_all in_int64 (map uid (users s)) \<and> list_all in_int64 (map pid (patients s)))"

definition empty_store :: store where
  "empty_store = \<lparr>users = [], patients = []\<rparr>"

subsection \<open>Statements run by a session\<close>

text \<open>
  The engine is the database together with the list of the select statements that
  were handed to \<open>session.execute\<close>, oldest first. Each select takes the engine and
  returns its answer together with the engine after it: a \<open>select ... where\<close> keeps
  the rows whose column equals the parameter, and \<open>fetchone()\<close> is the first row of
  an answer or \<open>None\<close>. The username parameter is a string and always binds. The
  patient id is a Python integer, which has no bound: outside the signed 64-bit range
  the driver cannot bind it and \<open>session.execute\<close> raises \<open>OverflowError\<close>, which
  neither script catches.
\<close>

datatype statement = SelectRole string | SelectPatient int

datatype py_error = OverflowError

type_synonym engine = "store \<times> statement list"

definition count_rows :: "'a list \<Rightarrow> nat" where
  "count_rows rows = length rows"

definition fetchone :: "'a list \<Rightarrow> 'a option" where
  "fetchone rows = (case rows of [] \<Rightarrow> None | r # _ \<Rightarrow> Some r)"

definition select_role :: "string \<Rightarrow> engine \<Rightarrow> string list \<times> engine" where
  "select_role u e =
     (map role (filter (\<lambda>r. username r = u) (users (fst e))),
      (fst e, snd e @ [SelectRole u]))"

definition select_patients ::
    "int \<Rightarrow> engine \<Rightarrow> (py_error + patient_row list) \<times> engine" where
  "select_patients p e =
     (if in_int64 p then Inr (filter (\<lambda>r. pid r = p) (patients (fst e)))
      else Inl OverflowError,
      (fst e, snd e @ [SelectPatient p]))"

text \<open>
  An insert that leaves the integer primary key out gets the next row id: 1 in an
  empty table, otherwise one more than the largest id in the table. When the largest
  id is already the greatest 64-bit value the engine picks an unused id at random;
  the model does not follow that choice and stops there with \<open>RandomRowid\<close>.
  Inserting a username that is already there violates the unique constraint.
\<close>

datatype insert_stop = IntegrityError | RandomRowid

definition next_id :: "int list \<Rightarrow> int option" where
  "next_id ids =
     (case ids of
        [] \<Rightarrow> Some 1
      | i # rest \<Rightarrow>
          (let m = fold max rest i
           in if m < 9223372036854775807 then Some (m + 1) else None))"

definition insert_user ::
    "string \<times> string \<Rightarrow> user_row list \<Rightarrow> insert_stop + user_row list" where
  "insert_user v rows =
     (if fst v \<in> set (map username rows) then Inl IntegrityError
      else (case next_id (map uid rows) of
              None \<Rightarrow> Inl RandomRowid
            | Some i \<Rightarrow> Inr (rows @ [\<lparr>uid = i, username = fst v, role = snd v\<rparr>])))"

fun insert_users ::
    "(string \<times> string) list \<Rightarrow> user_row list \<Rightarrow> insert_stop + user_row list" where
  "insert_users [] rows = Inr rows"
| "insert_users (v # vs) rows =
     (case insert_user v rows of Inl e \<Rightarrow> Inl e | Inr rows' \<Rightarrow> insert_users vs rows')"

definition insert_patient ::
    "string \<times> string \<times> string \<Rightarrow> patient_row list \<Rightarrow> insert_stop + patient_row list" where
  "insert_patient v rows =
     (case next_id (map pid rows) of
        None \<Rightarrow> Inl RandomRowid
      | Some i \<Rightarrow>
          Inr (rows @ [\<lparr>pid = i, name = fst v, provider_name = fst (snd v),
                        condition = snd (snd v)\<rparr>]))"

fun insert_patients ::
    "(string \<times> string \<times> string) list \<Rightarrow> patient_row list
       \<Rightarrow> insert_stop + patient_row list" where
  "insert_patients [] rows = Inr rows"
| "insert_patients (v # vs) rows =
     (case insert_patient v rows of
        Inl e \<Rightarrow> Inl e
      | Inr rows' \<Rightarrow> insert_patients vs rows')"

section \<open>Seeding\<close>

definition SEED_USERS :: "(string \<times> string) list" where
  "SEED_USERS =
     [(''dr_smith'', ''doctor''), (''nurse_johnson'', ''nurse''),
      (''receptionist_amy'', ''receptionist'')]"

definition SEED_PATIENTS :: "(string \<times> string \<times> string) list" where
  "SEED_PATIENTS =
     [(''John Doe'', ''Dr. Smith'', ''Flu''), (''Jane Roe'', ''Dr. Smith'', ''Diabetes''),
      (''Mary Major'', ''Dr. Brown'', ''Asthma'')]"

text \<open>
  The block under \<open>with Session(engine)\<close>: each table is filled only when its row
  count is zero, and the session commits at the end. An insert that stops leaves the
  block before the commit.
\<close>

definition seed :: "store \<Rightarrow> insert_stop + store" where
  "seed s =
     (case (if count_rows (users s) = 0 then insert_users SEED_USERS (users s)
            else Inr (users s)) of
        Inl e \<Rightarrow> Inl e
      | Inr us \<Rightarrow>
          (case (if count_rows (patients s) = 0
                 then insert_patients SEED_PATIENTS (patients s)
                 else Inr (patients s)) of
             Inl e \<Rightarrow> Inl e
           | Inr ps \<Rightarrow> Inr \<lparr>users = us, patients = ps\<rparr>))"

definition seeded_store :: store where
  "seeded_store = (case seed empty_store of Inl e \<Rightarrow> empty_store | Inr s \<Rightarrow> s)"

section \<open>The access gate\<close>

text \<open>
  The tool returns a Python dict with string keys whose values are integers or
  strings; it is kept as the list of its items in the order the dict literal gives
  them. A call either returns such a dict (\<open>Inr\<close>) or leaves with the exception a
  statement raised (\<open>Inl\<close>); with it come the database after the call and the
  statements the call handed to its sessions, in order.
\<close>

datatype pyval = PInt int | PStr string

type_synonym pydict = "(string \<times> pyval) list"

definition AUTHORIZED_ROLES :: "string set" where
  "AUTHORIZED_ROLES = {''doctor'', ''nurse''}"

definition user_not_found :: pydict where
  "user_not_found = [(''error'', PStr ''Access denied: user not found'')]"

definition insufficient_privileges :: pydict where
  "insufficient_privileges = [(''error'', PStr ''Access denied: insufficient privileges'')]"

definition patient_not_found :: pydict where
  "patient_not_found = [(''error'', PStr ''Patient not found'')]"

definition patient_dict :: "patient_row \<Rightarrow> pydict" where
  "patient_dict r =
     [(''id'', PInt (pid r)), (''name'', PStr (name r)),
      (''provider_name'', PStr (provider_name r)), (''condition'', PStr (condition r))]"

subsection \<open>naive_agent.py: the caller is an argument of every call\<close>

definition get_patient_record ::
    "string \<Rightarrow> int \<Rightarrow> store \<Rightarrow> (py_error + pydict) \<times> engine" where
  "get_patient_record logged_in_user patient_id s =
     (case select_role logged_in_user (s, []) of (user_rows, e1) \<Rightarrow>
        (case fetchone user_rows of
           None \<Rightarrow> (Inr user_not_found, e1)
         | Some user_role \<Rightarrow>
             if user_role \<notin> AUTHORIZED_ROLES then (Inr insufficient_privileges, e1)
             else
               (case select_patients patient_id e1 of
                  (Inl err, e2) \<Rightarrow> (Inl err, e2)
                | (Inr patient_rows, e2) \<Rightarrow>
                    (case fetchone patient_rows of
                       None \<Rightarrow> (Inr patient_not_found, e2)
                     | Some patient_result \<Rightarrow> (Inr (patient_dict patient_result), e2)))))"

subsection \<open>best_practice.py: the caller is fixed when the wrapper is built\<close>

record DatabaseAccessWrapper =
  user_id :: string

definition init :: "string \<Rightarrow> DatabaseAccessWrapper" where
  "init u = \<lparr>user_id = u\<rparr>"

definition get_user_role ::
    "DatabaseAccessWrapper \<Rightarrow> engine \<Rightarrow> string option \<times> engine" where
  "get_user_role self e =
     (case select_role (user_id self) e of (user_rows, e1) \<Rightarrow>
        (case fetchone user_rows of
           None \<Rightarrow> (None, e1)
         | Some user_result \<Rightarrow> (Some user_result, e1)))"

definition wrapper_get_patient_record ::
    "DatabaseAccessWrapper \<Rightarrow> int \<Rightarrow> store \<Rightarrow> (py_error + pydict) \<times> engine" where
  "wrapper_get_patient_record self patient_id s =
     (case get_user_role self (s, []) of (user_role, e1) \<Rightarrow>
        (case user_role of
           None \<Rightarrow> (Inr user_not_found, e1)
         | Some r \<Rightarrow>
             if r \<notin> AUTHORIZED_ROLES then (Inr insufficient_privileges, e1)
             else
               (case select_patients patient_id e1 of
                  (Inl err, e2) \<Rightarrow> (Inl err, e2)
                | (Inr patient_rows, e2) \<Rightarrow>
                    (case fetchone patient_rows of
                       None \<Rightarrow> (Inr patient_not_found, e2)
                     | Some patient_result \<Rightarrow> (Inr (patient_dict patient_result), e2)))))"

section \<open>Auxiliary facts\<close>

lemma fetchone_filter_distinct:
  assumes "distinct (map f rows)" and "r \<in> set rows"
  shows "fetchone (filter (\<lambda>x. f x = f r) rows) = Some r"
  using assms
proof (induction rows)
  case Nil
  then show ?case by simp
next
  case (Cons x rows)
  show ?case
  proof (cases "x = r")
    case True
    then show ?thesis by (simp add: fetchone_def)
  next
    case False
    with Cons.prems have in_rest: "r \<in> set rows" and fresh: "f x \<notin> f ` set rows"
      by auto
    from in_rest fresh have "f x \<noteq> f r" by auto
    moreover from Cons.prems have "distinct (map f rows)" by simp
    ultimately show ?thesis using Cons.IH in_rest by simp
  qed
qed

lemma seed_empty_store:
  "seed empty_store =
     Inr \<lparr>users =
            [\<lparr>uid = 1, username = ''dr_smith'', role = ''doctor''\<rparr>,
             \<lparr>uid = 2, username = ''nurse_johnson'', role = ''nurse''\<rparr>,
             \<lparr>uid = 3, username = ''receptionist_amy'', role = ''receptionist''\<rparr>],
          patients =
            [\<lparr>pid = 1, name = ''John Doe'', provider_name = ''Dr. Smith'', condition = ''Flu''\<rparr>,
             \<lparr>pid = 2, name = ''Jane Roe'', provider_name = ''Dr. Smith'',
              condition = ''Diabetes''\<rparr>,
             \<lparr>pid = 3, name = ''Mary Major'', provider_name = ''Dr. Brown'',
              condition = ''Asthma''\<rparr>]\<rparr>"
  by (simp add: seed_def empty_store_def count_rows_def SEED_USERS_def SEED_PATIENTS_def
      insert_user_def insert_patient_def next_id_def)

lemma seeded_store_rows:
  "seeded_store =
     \<lparr>users =
        [\<lparr>uid = 1, username = ''dr_smith'', role = ''doctor''\<rparr>,
         \<lparr>uid = 2, username = ''nurse_johnson'', role = ''nurse''\<rparr>,
         \<lparr>uid = 3, username = ''receptionist_amy'', role = ''receptionist''\<rparr>],
      patients =
        [\<lparr>pid = 1, name = ''John Doe'', provider_name = ''Dr. Smith'', condition = ''Flu''\<rparr>,
         \<lparr>pid = 2, name = ''Jane Roe'', provider_name = ''Dr. Smith'',
          condition = ''Diabetes''\<rparr>,
         \<lparr>pid = 3, name = ''Mary Major'', provider_name = ''Dr. Brown'',
          condition = ''Asthma''\<rparr>]\<rparr>"
  unfolding seeded_store_def seed_empty_store by simp

lemma wf_seeded_store: "wf_store seeded_store"
  by (simp add: wf_store_def seeded_store_rows in_int64_def)

lemma seed_skips_populated:
  assumes "users s \<noteq> []" and "patients s \<noteq> []"
  shows "seed s = Inr s"
  using assms by (simp add: seed_def count_rows_def)

lemma fetchone_map: "fetchone (map f rows) = map_option f (fetchone rows)"
  by (cases rows) (simp_all add: fetchone_def)


lemma role_lookup_known:
  assumes "distinct (map username (users s))" and "r \<in> set (users s)"
  shows "fetchone (map role (filter (\<lambda>x. username x = username r) (users s))) = Some (role r)"
  using fetchone_filter_distinct [OF assms] by (simp add: fetchone_map)

lemma patient_lookup_absent:
  assumes "p \<notin> pid ` set (patients s)"
  shows "fetchone (filter (\<lambda>r. pid r = p) (patients s)) = None"
proof -
  from assms have "filter (\<lambda>r. pid r = p) (patients s) = []"
    by (auto simp: filter_empty_conv)
  then show ?thesis by (simp add: fetchone_def)
qed

lemma patient_lookup_known:
  assumes "distinct (map pid (patients s))" and "q \<in> set (patients s)"
  shows "fetchone (filter (\<lambda>r. pid r = pid q) (patients s)) = Some q"
  using fetchone_filter_distinct [OF assms] .

lemma gate_unfold:
  "get_patient_record u p s =
     (case fetchone (map role (filter (\<lambda>r. username r = u) (users s))) of
        None \<Rightarrow> (Inr user_not_found, s, [SelectRole u])
      | Some user_role \<Rightarrow>
          if user_role \<notin> AUTHORIZED_ROLES
          then (Inr insufficient_privileges, s, [SelectRole u])
          else if \<not> in_int64 p
          then (Inl OverflowError, s, [SelectRole u, SelectPatient p])
          else (case fetchone (filter (\<lambda>r. pid r = p) (patients s)) of
                  None \<Rightarrow> (Inr patient_not_found, s, [SelectRole u, SelectPatient p])
                | Some q \<Rightarrow> (Inr (patient_dict q), s, [SelectRole u, SelectPatient p])))"
  by (simp add: get_patient_record_def select_role_def select_patients_def
      split: option.splits)

lemma wrapper_is_gate:
  "wrapper_get_patient_record w p s = get_patient_record (user_id w) p s"
  by (simp add: wrapper_get_patient_record_def get_user_role_def get_patient_record_def
      select_role_def split: option.splits)

lemma variant_is_gate:
  assumes "g = get_patient_record u \<or> g = wrapper_get_patient_record (init u)"
  shows "g = get_patient_record u"
proof -
  have "wrapper_get_patient_record (init u) = get_patient_record u"
    by (rule ext, rule ext) (simp add: wrapper_is_gate init_def)
  with assms show ?thesis by auto
qed


lemma gate_known_user:
  assumes "distinct (map username (users s))" and "r \<in> set (users s)"
  shows "get_patient_record (username r) p s =
           (if role r \<notin> AUTHORIZED_ROLES
            then (Inr insufficient_privileges, s, [SelectRole (username r)])
            else if \<not> in_int64 p
            then (Inl OverflowError, s, [SelectRole (username r), SelectPatient p])
            else (case fetchone (filter (\<lambda>x. pid x = p) (patients s)) of
                    None \<Rightarrow>
                      (Inr patient_not_found, s, [SelectRole (username r), SelectPatient p])
                  | Some q \<Rightarrow>
                      (Inr (patient_dict q), s, [SelectRole (username r), SelectPatient p])))"
  by (simp add: gate_unfold role_lookup_known [OF assms])

lemma denials_differ:
  "user_not_found \<noteq> insufficient_privileges"
  "user_not_found \<noteq> patient_not_found"
  "insufficient_privileges \<noteq> patient_not_found"
  "patient_dict q \<noteq> user_not_found"
  "patient_dict q \<noteq> insufficient_privileges"
  "patient_dict q \<noteq> patient_not_found"
  by (simp_all add: user_not_found_def insufficient_privileges_def patient_not_found_def
      patient_dict_def)

lemma wf_store_parts:
  assumes "wf_store s"
  shows "distinct (map username (users s))" and "distinct (map pid (patients s))"
    and "q \<in> set (patients s) \<Longrightarrow> in_int64 (pid q)"
  using assms by (auto simp: wf_store_def list_all_iff)

lemma gate_unauthorized:
  assumes "distinct (map username (users s))" and "r \<in> set (users s)"
    and "role r \<notin> AUTHORIZED_ROLES"
  shows "get_patient_record (username r) p s =
           (Inr insufficient_privileges, s, [SelectRole (username r)])"
  by (simp add: gate_known_user [OF assms(1,2)] assms(3))

lemma gate_authorized_overflow:
  assumes "distinct (map username (users s))" and "r \<in> set (users s)"
    and "role r \<in> AUTHORIZED_ROLES" and "\<not> in_int64 p"
  shows "get_patient_record (username r) p s =
           (Inl OverflowError, s, [SelectRole (username r), SelectPatient p])"
  by (simp add: gate_known_user [OF assms(1,2)] assms(3,4))

lemma gate_authorized_missing:
  assumes "distinct (map username (users s))" and "r \<in> set (users s)"
    and "role r \<in> AUTHORIZED_ROLES" and "in_int64 p" and "p \<notin> pid ` set (patients s)"
  shows "get_patient_record (username r) p s =
           (Inr patient_not_found, s, [SelectRole (username r), SelectPatient p])"
  by (simp add: gate_known_user [OF assms(1,2)] assms(3,4) patient_lookup_absent [OF assms(5)])

lemma gate_authorized_found:
  assumes "wf_store s" and "r \<in> set (users s)" and "role r \<in> AUTHORIZED_ROLES"
    and "q \<in> set (patients s)"
  shows "get_patient_record (username r) (pid q) s =
           (Inr (patient_dict q), s, [SelectRole (username r), SelectPatient (pid q)])"
  by (simp add: gate_known_user [OF wf_store_parts(1) [OF assms(1)] assms(2)] assms(3)
      wf_store_parts(3) [OF assms(1,4)]
      patient_lookup_known [OF wf_store_parts(2) [OF assms(1)] assms(4)])

lemma gate_keeps_store: "fst (snd (get_patient_record u p s)) = s"
  by (simp add: gate_unfold split: option.splits)




lemma gate_denial_ignores_patients:
  "(fst (get_patient_record u p s) = Inr user_not_found) =
     (fst (get_patient_record u p' (s\<lparr>patients := ps\<rparr>)) = Inr user_not_found)"
  "(fst (get_patient_record u p s) = Inr insufficient_privileges) =
     (fst (get_patient_record u p' (s\<lparr>patients := ps\<rparr>)) = Inr insufficient_privileges)"
  by (simp_all add: gate_unfold denials_differ denials_differ [symmetric]
      split: option.splits)

lemma seeded_scenarios:
  "fst (get_patient_record ''dr_smith'' 3 seeded_store) =
     Inr [(''id'', PInt 3), (''name'', PStr ''Mary Major''),
          (''provider_name'', PStr ''Dr. Brown''), (''condition'', PStr ''Asthma'')]"
  "fst (get_patient_record ''nurse_johnson'' 3 seeded_store) =
     Inr [(''id'', PInt 3), (''name'', PStr ''Mary Major''),
          (''provider_name'', PStr ''Dr. Brown''), (''condition'', PStr ''Asthma'')]"
  "fst (get_patient_record ''nurse_johnson'' 99 seeded_store) =
     Inr [(''error'', PStr ''Patient not found'')]"
  "fst (get_patient_record ''receptionist_amy'' 3 seeded_store) =
     Inr [(''error'', PStr ''Access denied: insufficient privileges'')]"
  "fst (get_patient_record ''unknown_user'' 1 seeded_store) =
     Inr [(''error'', PStr ''Access denied: user not found'')]"
  by (simp_all add: gate_unfold fetchone_def seeded_store_rows AUTHORIZED_ROLES_def
      in_int64_def patient_dict_def user_not_found_def insufficient_privileges_def
      patient_not_found_def)

lemma seeded_overflows:
  "fst (get_patient_record ''dr_smith'' 9223372036854775808 seeded_store) =
     Inl OverflowError"
  "fst (get_patient_record ''dr_smith'' (- 9223372036854775809) seeded_store) =
     Inl OverflowError"
  "fst (get_patient_record ''nurse_johnson'' 1000000000000000000000000000000 seeded_store) =
     Inl OverflowError"
  by (simp_all add: gate_unfold fetchone_def seeded_store_rows AUTHORIZED_ROLES_def
      in_int64_def)

lemma seeded_members:
  "\<lparr>uid = 1, username = ''dr_smith'', role = ''doctor''\<rparr> \<in> set (users seeded_store)"
  "\<lparr>uid = 2, username = ''nurse_johnson'', role = ''nurse''\<rparr> \<in> set (users seeded_store)"
  "\<lparr>uid = 3, username = ''receptionist_amy'', role = ''receptionist''\<rparr>
     \<in> set (users seeded_store)"
  "\<lparr>pid = 2, name = ''Jane Roe'', provider_name = ''Dr. Smith'', condition = ''Diabetes''\<rparr>
     \<in> set (patients seeded_store)"
  "\<lparr>pid = 3, name = ''Mary Major'', provider_name = ''Dr. Brown'', condition = ''Asthma''\<rparr>
     \<in> set (patients seeded_store)"
  by (simp_all add: seeded_store_rows)

lemma seeded_ids: "pid ` set (patients seeded_store) = {1, 2, 3}"
  by (auto simp: seeded_store_rows)

section \<open>Properties of seeding\<close>

text \<open>
  C6. Seeding the empty store succeeds; seeding the result again succeeds and returns
  the same store, which has three user rows and three patient rows with no repeated
  username and no repeated patient id. The second run inserts nothing because a store
  whose two tables are both populated is returned as it is.
\<close>

theorem seeding_idempotent:
  "seed empty_store = Inr seeded_store \<and> seed seeded_store = Inr seeded_store \<and>
   count_rows (users seeded_store) = 3 \<and> count_rows (patients seeded_store) = 3 \<and>
   distinct (map username (users seeded_store)) \<and>
   distinct (map pid (patients seeded_store)) \<and>
   (users s \<noteq> [] \<and> patients s \<noteq> [] \<longrightarrow> seed s = Inr s)"
proof -
  have first: "seed empty_store = Inr seeded_store"
    unfolding seeded_store_rows by (rule seed_empty_store)
  have second: "seed seeded_store = Inr seeded_store"
    by (rule seed_skips_populated) (simp_all add: seeded_store_rows)
  have sizes: "count_rows (users seeded_store) = 3 \<and> count_rows (patients seeded_store) = 3"
    by (simp add: count_rows_def seeded_store_rows)
  have uniq: "distinct (map username (users seeded_store)) \<and>
              distinct (map pid (patients seeded_store))"
    using wf_seeded_store by (simp add: wf_store_def)
  from first second sizes uniq seed_skips_populated [of s] show ?thesis by blast
qed

theorem seeding_idempotent_witness:
  "users seeded_store \<noteq> [] \<and> patients seeded_store \<noteq> [] \<and>
   seed seeded_store = Inr seeded_store \<and> length (users seeded_store) = 3 \<and>
   length (patients seeded_store) = 3"
  using seeding_idempotent [of seeded_store]
  by (simp add: seeded_store_rows count_rows_def)

text \<open>
  C7. Seeding the empty store yields exactly the fixed rows: the three users, and the
  three patients numbered 1, 2 and 3 in the order of the insert, although the insert
  gives no id.
\<close>

theorem seed_rows_exact:
  "seed empty_store =
     Inr \<lparr>users =
            [\<lparr>uid = 1, username = ''dr_smith'', role = ''doctor''\<rparr>,
             \<lparr>uid = 2, username = ''nurse_johnson'', role = ''nurse''\<rparr>,
             \<lparr>uid = 3, username = ''receptionist_amy'', role = ''receptionist''\<rparr>],
          patients =
            [\<lparr>pid = 1, name = ''John Doe'', provider_name = ''Dr. Smith'', condition = ''Flu''\<rparr>,
             \<lparr>pid = 2, name = ''Jane Roe'', provider_name = ''Dr. Smith'',
              condition = ''Diabetes''\<rparr>,
             \<lparr>pid = 3, name = ''Mary Major'', provider_name = ''Dr. Brown'',
              condition = ''Asthma''\<rparr>]\<rparr>"
  by (rule seed_empty_store)

section \<open>The two variants\<close>

text \<open>
  C8. A wrapper built for user \<open>u\<close> answers every patient id as the per-call function
  does for \<open>u\<close>: the same dict or the same exception, the same store and the same
  statements. The wrapper's method takes the patient id only; the identity it
  authorizes is the \<open>user_id\<close> field, which is the name given at construction.
\<close>

theorem variants_agree:
  "wrapper_get_patient_record (init u) p s = get_patient_record u p s \<and>
   wrapper_get_patient_record w p s = get_patient_record (user_id w) p s \<and>
   user_id (init u) = u \<and>
   fst (get_user_role (init u) e) = fetchone (fst (select_role u e))"
  by (simp add: wrapper_is_gate init_def get_user_role_def select_role_def
      split: option.splits)

text \<open>
  C9. A call leaves the store as it was, in both variants and on every path, the
  raising one included; so does the wrapper's role lookup.
\<close>

theorem lookup_keeps_store:
  "fst (snd (get_patient_record u p s)) = s \<and>
   fst (snd (wrapper_get_patient_record w p s)) = s \<and>
   fst (snd (get_user_role w (s, issued))) = s"
  by (simp add: wrapper_is_gate gate_keeps_store get_user_role_def select_role_def
      split: option.splits)

section \<open>The contract of the access gate\<close>

text \<open>
  In the theorems of this section \<open>g\<close> stands for either variant called for the user
  \<open>u\<close>: the per-call function applied to \<open>u\<close>, or the method of a wrapper built for
  \<open>u\<close>. The first component of a call is what it returns or raises, the last is the
  list of statements it ran.
\<close>




text \<open>
  C2, as the code has it. For a user of the store whose role is doctor or nurse and a
  patient id in the signed 64-bit range, either variant returns the four fields of
  the stored patient with that id, and the patient denial when no patient has it; for
  an id outside the range the call raises OverflowError. On the seeded store dr_smith
  gets patient 3 (Mary Major, Dr. Brown, Asthma) and nurse_johnson gets the patient
  denial for id 99.
\<close>

theorem authorized_lookup:
  assumes wf: "wf_store s"
    and g: "g = get_patient_record u \<or> g = wrapper_get_patient_record (init u)"
    and r: "r \<in> set (users s)" "username r = u" "role r \<in> {''doctor'', ''nurse''}"
  shows "(\<forall>q\<in>set (patients s). pid q = p \<longrightarrow>
            fst (g p s) =
              Inr [(''id'', PInt (pid q)), (''name'', PStr (name q)),
                   (''provider_name'', PStr (provider_name q)),
                   (''condition'', PStr (condition q))]) \<and>
         (in_int64 p \<and> p \<notin> pid ` set (patients s) \<longrightarrow>
            fst (g p s) = Inr [(''error'', PStr ''Patient not found'')]) \<and>
         (\<not> in_int64 p \<longrightarrow> fst (g p s) = Inl OverflowError) \<and>
         seed empty_store = Inr seeded_store \<and>
         fst (get_patient_record ''dr_smith'' 3 seeded_store) =
           Inr [(''id'', PInt 3), (''name'', PStr ''Mary Major''),
                (''provider_name'', PStr ''Dr. Brown''), (''condition'', PStr ''Asthma'')] \<and>
         fst (wrapper_get_patient_record (init ''dr_smith'') 3 seeded_store) =
           Inr [(''id'', PInt 3), (''name'', PStr ''Mary Major''),
                (''provider_name'', PStr ''Dr. Brown''), (''condition'', PStr ''Asthma'')] \<and>
         fst (get_patient_record ''nurse_johnson'' 99 seeded_store) =
           Inr [(''error'', PStr ''Patient not found'')] \<and>
         fst (wrapper_get_patient_record (init ''nurse_johnson'') 99 seeded_store) =
           Inr [(''error'', PStr ''Patient not found'')]"
proof -
  from g have gate: "g = get_patient_record u" by (rule variant_is_gate)
  note du = wf_store_parts(1) [OF wf]
  from r(3) have auth: "role r \<in> AUTHORIZED_ROLES" by (simp add: AUTHORIZED_ROLES_def)
  have found: "fst (g p s) = Inr (patient_dict q)" if "q \<in> set (patients s)" "pid q = p" for q
    using gate_authorized_found [OF wf r(1) auth that(1)] r(2) that(2) gate by simp
  have missing: "fst (g p s) = Inr patient_not_found"
    if "in_int64 p" "p \<notin> pid ` set (patients s)"
    using gate_authorized_missing [OF du r(1) auth that] r(2) gate by simp
  have raises: "fst (g p s) = Inl OverflowError" if "\<not> in_int64 p"
    using gate_authorized_overflow [OF du r(1) auth that] r(2) gate by simp
  have seeded: "seed empty_store = Inr seeded_store"
    unfolding seeded_store_rows by (rule seed_empty_store)
  from found have first: "\<forall>q\<in>set (patients s). pid q = p \<longrightarrow>
            fst (g p s) =
              Inr [(''id'', PInt (pid q)), (''name'', PStr (name q)),
                   (''provider_name'', PStr (provider_name q)),
                   (''condition'', PStr (condition q))]"
    by (simp add: patient_dict_def)
  from missing have second: "in_int64 p \<and> p \<notin> pid ` set (patients s) \<longrightarrow>
            fst (g p s) = Inr [(''error'', PStr ''Patient not found'')]"
    by (simp add: patient_not_found_def)
  from raises have third: "\<not> in_int64 p \<longrightarrow> fst (g p s) = Inl OverflowError" by simp
  from first second third seeded show ?thesis
    by (simp add: seeded_scenarios wrapper_is_gate init_def)
qed

theorem authorized_lookup_witness:
  "wf_store seeded_store \<and>
   \<lparr>uid = 2, username = ''nurse_johnson'', role = ''nurse''\<rparr> \<in> set (users seeded_store) \<and>
   fst (wrapper_get_patient_record (init ''nurse_johnson'') 2 seeded_store) =
     Inr [(''id'', PInt 2), (''name'', PStr ''Jane Roe''),
          (''provider_name'', PStr ''Dr. Smith''), (''condition'', PStr ''Diabetes'')] \<and>
   fst (wrapper_get_patient_record (init ''nurse_johnson'') 7 seeded_store) =
     Inr [(''error'', PStr ''Patient not found'')] \<and>
   fst (wrapper_get_patient_record (init ''nurse_johnson'') 9223372036854775808 seeded_store) =
     Inl OverflowError"
proof -
  let ?g = "wrapper_get_patient_record (init ''nurse_johnson'')"
  let ?r = "\<lparr>uid = 2, username = ''nurse_johnson'', role = ''nurse''\<rparr>"
  have v: "?g = get_patient_record ''nurse_johnson'' \<or> ?g = ?g" by simp
  have out: "in_int64 7 \<and> 7 \<notin> pid ` set (patients seeded_store)"
    and big: "\<not> in_int64 9223372036854775808"
    by (simp_all add: seeded_ids in_int64_def)
  have name: "username ?r = ''nurse_johnson''" and role: "role ?r \<in> {''doctor'', ''nurse''}"
    by simp_all
  note t = authorized_lookup [OF wf_seeded_store v seeded_members(2) name role]
  from t [of 2, THEN conjunct1, rule_format, OF seeded_members(4)]
  have a: "fst (?g 2 seeded_store) =
     Inr [(''id'', PInt 2), (''name'', PStr ''Jane Roe''),
          (''provider_name'', PStr ''Dr. Smith''), (''condition'', PStr ''Diabetes'')]"
    by simp
  from t [of 7, THEN conjunct2, THEN conjunct1, rule_format, OF out]
  have b: "fst (?g 7 seeded_store) = Inr [(''error'', PStr ''Patient not found'')]" .
  from t [of 9223372036854775808, THEN conjunct2, THEN conjunct2, THEN conjunct1,
      rule_format, OF big]
  have c: "fst (?g 9223372036854775808 seeded_store) = Inl OverflowError" .
  from a b c seeded_members(2) wf_seeded_store show ?thesis by simp
qed

text \<open>
  C2 as the specification words it fails: dr_smith is a doctor of the seeded store and the id
  \<open>2^63\<close> matches no stored patient, yet the call does not return the patient denial.
\<close>

theorem authorized_lookup_counterexample:
  "wf_store seeded_store \<and>
   \<lparr>uid = 1, username = ''dr_smith'', role = ''doctor''\<rparr> \<in> set (users seeded_store) \<and>
   9223372036854775808 \<notin> pid ` set (patients seeded_store) \<and>
   fst (get_patient_record ''dr_smith'' 9223372036854775808 seeded_store) \<noteq>
     Inr [(''error'', PStr ''Patient not found'')]"
  by (simp add: wf_seeded_store seeded_members seeded_ids seeded_overflows)



text \<open>
  C4. For a user of the store whose role is neither doctor nor nurse, either variant
  returns the privilege denial for every patient id; two calls with different ids
  give the same answer, and so does a call on any other content of the patient table.
\<close>

theorem unauthorized_role_masked:
  assumes uniq: "distinct (map username (users s))"
    and g: "g = get_patient_record u \<or> g = wrapper_get_patient_record (init u)"
    and r: "r \<in> set (users s)" "username r = u" "role r \<notin> {''doctor'', ''nurse''}"
  shows "fst (g p s) = Inr [(''error'', PStr ''Access denied: insufficient privileges'')] \<and>
         fst (g p' s) = fst (g p s) \<and>
         fst (g p' (s\<lparr>patients := ps\<rparr>)) = fst (g p s)"
proof -
  from g have gate: "g = get_patient_record u" by (rule variant_is_gate)
  from r(3) have unauth: "role r \<notin> AUTHORIZED_ROLES" by (simp add: AUTHORIZED_ROLES_def)
  let ?s' = "s\<lparr>patients := ps\<rparr>"
  from uniq r(1) have uniq': "distinct (map username (users ?s'))"
    and r': "r \<in> set (users ?s')"
    by simp_all
  from gate_unauthorized [OF uniq r(1) unauth] gate_unauthorized [OF uniq' r' unauth] r(2) gate
  show ?thesis by (simp add: insufficient_privileges_def)
qed

theorem unauthorized_role_masked_witness:
  "distinct (map username (users seeded_store)) \<and>
   \<lparr>uid = 3, username = ''receptionist_amy'', role = ''receptionist''\<rparr>
     \<in> set (users seeded_store) \<and>
   fst (get_patient_record ''receptionist_amy'' 3 seeded_store) =
     Inr [(''error'', PStr ''Access denied: insufficient privileges'')] \<and>
   fst (get_patient_record ''receptionist_amy'' 99 seeded_store) =
     fst (get_patient_record ''receptionist_amy'' 3 seeded_store)"
proof -
  let ?g = "get_patient_record ''receptionist_amy''"
  let ?r = "\<lparr>uid = 3, username = ''receptionist_amy'', role = ''receptionist''\<rparr>"
  have v: "?g = ?g \<or> ?g = wrapper_get_patient_record (init ''receptionist_amy'')" by simp
  have uniq: "distinct (map username (users seeded_store))"
    by (simp add: seeded_store_rows)
  have name: "username ?r = ''receptionist_amy''"
    and role: "role ?r \<notin> {''doctor'', ''nurse''}"
    by simp_all
  from unauthorized_role_masked [OF uniq v seeded_members(3) name role, of 3 99 "[]"]
    uniq seeded_members(3)
  show ?thesis by simp
qed




text \<open>
  C10. The decision looks at the caller's role only. A user whose role is doctor or
  nurse reads every stored patient, whatever its provider; whether a call is denied
  for the user or for the role is the same for every patient id and every content of
  the patient table. On the seeded store nurse_johnson and dr_smith both read patient
  3, whose provider is Dr. Brown.
\<close>

theorem role_only_authorization:
  assumes wf: "wf_store s"
    and g: "g = get_patient_record u \<or> g = wrapper_get_patient_record (init u)"
    and r: "r \<in> set (users s)" "username r = u" "role r \<in> {''doctor'', ''nurse''}"
    and q: "q \<in> set (patients s)"
  shows "fst (g (pid q) s) =
           Inr [(''id'', PInt (pid q)), (''name'', PStr (name q)),
                (''provider_name'', PStr (provider_name q)),
                (''condition'', PStr (condition q))] \<and>
         (fst (g p (s\<lparr>patients := ps\<rparr>)) = Inr user_not_found) =
           (fst (g p' s) = Inr user_not_found) \<and>
         (fst (g p (s\<lparr>patients := ps\<rparr>)) = Inr insufficient_privileges) =
           (fst (g p' s) = Inr insufficient_privileges) \<and>
         fst (get_patient_record ''nurse_johnson'' 3 seeded_store) =
           Inr [(''id'', PInt 3), (''name'', PStr ''Mary Major''),
                (''provider_name'', PStr ''Dr. Brown''), (''condition'', PStr ''Asthma'')] \<and>
         fst (wrapper_get_patient_record (init ''dr_smith'') 3 seeded_store) =
           Inr [(''id'', PInt 3), (''name'', PStr ''Mary Major''),
                (''provider_name'', PStr ''Dr. Brown''), (''condition'', PStr ''Asthma'')]"
proof -
  from g have gate: "g = get_patient_record u" by (rule variant_is_gate)
  from r(3) have auth: "role r \<in> AUTHORIZED_ROLES" by (simp add: AUTHORIZED_ROLES_def)
  from gate_authorized_found [OF wf r(1) auth q] r(2) gate
  have reads: "fst (g (pid q) s) =
           Inr [(''id'', PInt (pid q)), (''name'', PStr (name q)),
                (''provider_name'', PStr (provider_name q)),
                (''condition'', PStr (condition q))]"
    by (simp add: patient_dict_def)
  have d1: "(fst (g p (s\<lparr>patients := ps\<rparr>)) = Inr user_not_found) =
           (fst (g p' s) = Inr user_not_found)"
    unfolding gate by (rule gate_denial_ignores_patients(1) [symmetric])
  have d2: "(fst (g p (s\<lparr>patients := ps\<rparr>)) = Inr insufficient_privileges) =
           (fst (g p' s) = Inr insufficient_privileges)"
    unfolding gate by (rule gate_denial_ignores_patients(2) [symmetric])
  from reads d1 d2 show ?thesis
    by (simp add: seeded_scenarios wrapper_is_gate init_def)
qed

theorem role_only_authorization_witness:
  "wf_store seeded_store \<and>
   \<lparr>uid = 2, username = ''nurse_johnson'', role = ''nurse''\<rparr> \<in> set (users seeded_store) \<and>
   \<lparr>pid = 3, name = ''Mary Major'', provider_name = ''Dr. Brown'', condition = ''Asthma''\<rparr>
     \<in> set (patients seeded_store) \<and>
   fst (get_patient_record ''nurse_johnson'' 3 seeded_store) =
     Inr [(''id'', PInt 3), (''name'', PStr ''Mary Major''),
          (''provider_name'', PStr ''Dr. Brown''), (''condition'', PStr ''Asthma'')]"
proof -
  let ?g = "get_patient_record ''nurse_johnson''"
  let ?r = "\<lparr>uid = 2, username = ''nurse_johnson'', role = ''nurse''\<rparr>"
  have v: "?g = ?g \<or> ?g = wrapper_get_patient_record (init ''nurse_johnson'')" by simp
  have name: "username ?r = ''nurse_johnson''" and role: "role ?r \<in> {''doctor'', ''nurse''}"
    by simp_all
  from role_only_authorization
    [OF wf_seeded_store v seeded_members(2) name role seeded_members(5), THEN conjunct1]
  have "fst (?g 3 seeded_store) =
     Inr [(''id'', PInt 3), (''name'', PStr ''Mary Major''),
          (''provider_name'', PStr ''Dr. Brown''), (''condition'', PStr ''Asthma'')]"
    by simp
  with seeded_members(2,5) wf_seeded_store show ?thesis by simp
qed

end
